theory Spec2Isabelle
  imports Main
begin

section \<open>JavaScript values\<close>

text \<open>
  The client handles untyped JSON data: response bodies, the token, the user record and
  the stored strings are all JavaScript values, and the code branches on their
  truthiness. Numbers are restricted to integers; an object is an association list
  read with \<open>map_of\<close> (the first binding of a key is the property).
\<close>

datatype jsval =
    JUndefined
  | JNull
  | JBool bool
  | JNum int
  | JStr string
  | JArr "jsval list"
  | JObj "(string \<times> jsval) list"

text \<open>\<^verbatim>\<open>!!v\<close>: the falsy values are undefined, null, false, 0 and the empty string.\<close>

fun truthy :: "jsval \<Rightarrow> bool" where
  "truthy JUndefined = False"
| "truthy JNull = False"
| "truthy (JBool b) = b"
| "truthy (JNum n) = (n \<noteq> 0)"
| "truthy (JStr s) = (s \<noteq> [])"
| "truthy (JArr xs) = True"
| "truthy (JObj kvs) = True"

fun nullish :: "jsval \<Rightarrow> bool" where
  "nullish JUndefined = True"
| "nullish JNull = True"
| "nullish v = False"

text \<open>
  \<^verbatim>\<open>v.k\<close> on a value that is neither null nor undefined, for the property names the
  client reads (token, data, message, id, userId, isAdmin): only an object can carry
  them, every other value yields undefined.
\<close>

fun member :: "jsval \<Rightarrow> string \<Rightarrow> jsval" where
  "member (JObj kvs) k = (case map_of kvs k of Some v \<Rightarrow> v | None \<Rightarrow> JUndefined)"
| "member v k = JUndefined"

datatype http_response = Response (resp_status: nat) (resp_data: jsval)

text \<open>
  What a \<^verbatim>\<open>try\<close> block can catch: the error axios rejects with (carrying the backend's
  response when there was one), a TypeError from reading a property of null or
  undefined, an \<^verbatim>\<open>Error\<close> thrown by the code itself, a SyntaxError of
  \<^verbatim>\<open>JSON.parse\<close>, and a rejection of the key-value storage.
\<close>

datatype js_error =
    AxiosError "http_response option"
  | TypeError
  | PlainError string
  | SyntaxError
  | StorageError

text \<open>\<^verbatim>\<open>v.k\<close>: throws on null and undefined.\<close>

definition read_prop :: "jsval \<Rightarrow> string \<Rightarrow> js_error + jsval" where
  "read_prop v k = (if nullish v then Inl TypeError else Inr (member v k))"

text \<open>\<^verbatim>\<open>v?.k\<close>: undefined on null and undefined.\<close>

definition opt_member :: "jsval \<Rightarrow> string \<Rightarrow> jsval" where
  "opt_member v k = (if nullish v then JUndefined else member v k)"

text \<open>
  \<^verbatim>\<open>a === b\<close>. Primitives compare by value; two objects or arrays are equal only when
  they are the same reference, which values decoded from different responses never are.
\<close>

fun strict_eq :: "jsval \<Rightarrow> jsval \<Rightarrow> bool" where
  "strict_eq (JArr xs) b = False"
| "strict_eq (JObj kvs) b = False"
| "strict_eq a b = (a = b)"

section \<open>Session manager (contexts/AuthContext.js)\<close>

text \<open>
  The provider's React state (\<open>user\<close>, \<open>token\<close>, \<open>isLoading\<close>, \<open>error\<close>) together with
  the two process-wide cells its operations write: the key-value storage and
  \<^verbatim>\<open>axios.defaults.headers.common['Authorization']\<close>. The header value
  \<^verbatim>\<open>`Bearer ${t}`\<close> is kept as \<open>Bearer t\<close>.
\<close>

datatype header_value = Bearer jsval

record app_state =
  user :: jsval
  token :: jsval
  isLoading :: bool
  error :: jsval
  storage :: "string \<rightharpoonup> jsval"
  authorization :: "header_value option"

text \<open>The state of a freshly started process over a given durable storage.\<close>

definition app_start :: "(string \<rightharpoonup> jsval) \<Rightarrow> app_state" where
  "app_start st =
     \<lparr>user = JNull, token = JNull, isLoading = True, error = JNull,
      storage = st, authorization = None\<rparr>"

text \<open>
  Storage operations are asynchronous and may reject. Whether a given call rejects is
  decided outside the program, so each call takes its fault (\<open>None\<close>: the call
  succeeds); a rejected call leaves the storage as it was.
\<close>

definition getItem :: "app_state \<Rightarrow> string \<Rightarrow> js_error option \<Rightarrow> js_error + jsval" where
  "getItem s k fault =
     (case fault of
        Some e \<Rightarrow> Inl e
      | None \<Rightarrow> Inr (case storage s k of Some v \<Rightarrow> v | None \<Rightarrow> JNull))"

definition setItem ::
  "app_state \<Rightarrow> string \<Rightarrow> jsval \<Rightarrow> js_error option \<Rightarrow> js_error + app_state" where
  "setItem s k v fault =
     (case fault of
        Some e \<Rightarrow> Inl e
      | None \<Rightarrow> Inr (s\<lparr>storage := (storage s)(k \<mapsto> v)\<rparr>))"

definition removeItem ::
  "app_state \<Rightarrow> string \<Rightarrow> js_error option \<Rightarrow> js_error + app_state" where
  "removeItem s k fault =
     (case fault of
        Some e \<Rightarrow> Inl e
      | None \<Rightarrow> Inr (s\<lparr>storage := (storage s)(k := None)\<rparr>))"

text \<open>\<^verbatim>\<open>error.response?.data?.message || fallback\<close>\<close>

definition error_message :: "js_error \<Rightarrow> string \<Rightarrow> jsval" where
  "error_message e fallback =
     (let m = (case e of
                 AxiosError (Some r) \<Rightarrow> opt_member (resp_data r) ''message''
               | _ \<Rightarrow> JUndefined)
      in if truthy m then m else JStr fallback)"

text \<open>\<^verbatim>\<open>isAuthenticated: !!token\<close> and \<^verbatim>\<open>user?.isAdmin === true\<close>\<close>

definition isAuthenticated :: "app_state \<Rightarrow> bool" where
  "isAuthenticated s = truthy (token s)"

definition isAdmin :: "jsval \<Rightarrow> bool" where
  "isAdmin u = strict_eq (opt_member u ''isAdmin'') (JBool True)"

subsection \<open>loadStoredAuthState\<close>

text \<open>
  Runs once at start. \<open>parsed\<close> is what \<^verbatim>\<open>JSON.parse(storedUser)\<close> evaluates to
  (\<open>Inl\<close>: it throws). The \<^verbatim>\<open>catch\<close> only logs; \<^verbatim>\<open>finally\<close> clears
  \<open>isLoading\<close>.
\<close>

definition loadStoredAuthState ::
  "app_state \<Rightarrow> js_error option \<Rightarrow> js_error option \<Rightarrow> js_error + jsval \<Rightarrow> app_state" where
  "loadStoredAuthState s g1 g2 parsed =
     (let after_try =
        (case getItem s ''authToken'' g1 of
           Inl e \<Rightarrow> s
         | Inr storedToken \<Rightarrow>
            (case getItem s ''user'' g2 of
               Inl e \<Rightarrow> s
             | Inr storedUser \<Rightarrow>
                if truthy storedToken \<and> truthy storedUser then
                  (let s1 = s\<lparr>token := storedToken\<rparr> in
                   case parsed of
                     Inl e \<Rightarrow> s1
                   | Inr u \<Rightarrow> s1\<lparr>user := u, authorization := Some (Bearer storedToken)\<rparr>)
                else s))
      in after_try\<lparr>isLoading := False\<rparr>)"

subsection \<open>register\<close>

text \<open>\<open>post\<close> is the outcome of \<^verbatim>\<open>axios.post(`${API_URL}/user/new`, ...)\<close>.\<close>

definition register ::
  "app_state \<Rightarrow> js_error + http_response \<Rightarrow> (js_error + jsval) \<times> app_state" where
  "register s post =
     (let s1 = s\<lparr>error := JNull\<rparr> in
      case post of
        Inr response \<Rightarrow> (Inr (resp_data response), s1)
      | Inl e \<Rightarrow> (Inl e, s1\<lparr>error := error_message e ''Registration failed''\<rparr>))"

subsection \<open>login\<close>

text \<open>The \<^verbatim>\<open>catch\<close> block of login: record the message, rethrow.\<close>

definition login_catch :: "js_error \<Rightarrow> app_state \<Rightarrow> (js_error + jsval) \<times> app_state" where
  "login_catch e s = (Inl e, s\<lparr>error := error_message e ''Login failed''\<rparr>)"

text \<open>
  \<open>post\<close> is the outcome of the token exchange \<^verbatim>\<open>POST /user/login\<close>, \<open>profile\<close>
  that of \<^verbatim>\<open>GET /user/monprofil\<close>, \<open>w1\<close> and \<open>w2\<close> the faults of the two storage
  writes, \<open>stringify\<close> is \<^verbatim>\<open>JSON.stringify\<close>.
\<close>

definition login ::
  "(jsval \<Rightarrow> jsval) \<Rightarrow> app_state \<Rightarrow> js_error + http_response \<Rightarrow> js_error + http_response \<Rightarrow>
   js_error option \<Rightarrow> js_error option \<Rightarrow> (js_error + jsval) \<times> app_state" where
  "login stringify s post profile w1 w2 =
     (let s1 = s\<lparr>error := JNull\<rparr> in
      case post of
        Inl e \<Rightarrow> login_catch e s1
      | Inr response \<Rightarrow>
         (case read_prop (resp_data response) ''token'' of
            Inl e \<Rightarrow> login_catch e s1
          | Inr receivedToken \<Rightarrow>
             if \<not> truthy receivedToken
             then login_catch (PlainError ''No token received from server'') s1
             else
              (let s2 = s1\<lparr>token := receivedToken,
                           authorization := Some (Bearer receivedToken)\<rparr> in
               case profile of
                 Inl e \<Rightarrow> login_catch e s2
               | Inr profileResponse \<Rightarrow>
                  (case read_prop (resp_data profileResponse) ''data'' of
                     Inl e \<Rightarrow> login_catch e s2
                   | Inr userData \<Rightarrow>
                      (let s3 = s2\<lparr>user := userData\<rparr> in
                       case setItem s3 ''authToken'' receivedToken w1 of
                         Inl e \<Rightarrow> login_catch e s3
                       | Inr s4 \<Rightarrow>
                          (case setItem s4 ''user'' (stringify userData) w2 of
                             Inl e \<Rightarrow> login_catch e s4
                           | Inr s5 \<Rightarrow> (Inr userData, s5)))))))"

subsection \<open>logout\<close>

text \<open>
  \<open>r1\<close> and \<open>r2\<close> are the faults of the two storage removals. The \<^verbatim>\<open>catch\<close> logs
  and returns, so the promise always resolves.
\<close>

definition logout ::
  "app_state \<Rightarrow> js_error option \<Rightarrow> js_error option \<Rightarrow> (js_error + unit) \<times> app_state" where
  "logout s r1 r2 =
     (let s1 = s\<lparr>user := JNull, token := JNull\<rparr> in
      case removeItem s1 ''authToken'' r1 of
        Inl e \<Rightarrow> (Inr (), s1)
      | Inr s2 \<Rightarrow>
         (case removeItem s2 ''user'' r2 of
            Inl e \<Rightarrow> (Inr (), s2)
          | Inr s3 \<Rightarrow> (Inr (), s3\<lparr>authorization := None\<rparr>)))"

section \<open>Content client (services/PostService.js)\<close>

text \<open>
  \<open>get\<close> is the outcome of the \<^verbatim>\<open>axios.get\<close> call: \<open>Inl\<close> the error axios rejects
  with (a 404 of the backend is \<open>AxiosError (Some (Response 404 body))\<close>), \<open>Inr\<close> the
  response. Both functions rethrow what they catch.
\<close>

definition getAllPosts :: "js_error + http_response \<Rightarrow> js_error + jsval" where
  "getAllPosts get =
     (case get of
        Inl e \<Rightarrow> Inl e
      | Inr response \<Rightarrow>
         if truthy (resp_data response) \<and> truthy (member (resp_data response) ''data'')
         then Inr (member (resp_data response) ''data'')
         else Inr (resp_data response))"

text \<open>
  Before returning the bare body, getPostById logs \<^verbatim>\<open>response.data.id\<close>, which throws
  when the body is null or undefined.
\<close>

definition getPostById :: "js_error + http_response \<Rightarrow> js_error + jsval" where
  "getPostById get =
     (case get of
        Inl e \<Rightarrow> Inl e
      | Inr response \<Rightarrow>
         if truthy (resp_data response) \<and> truthy (member (resp_data response) ''data'')
         then Inr (member (resp_data response) ''data'')
         else (case read_prop (resp_data response) ''id'' of
                 Inl e \<Rightarrow> Inl e
               | Inr logged \<Rightarrow> Inr (resp_data response)))"

section \<open>Endpoint selection in the screens\<close>

text \<open>The PostService operation a handler ends up invoking (\<open>None\<close>: it invokes none).\<close>

datatype service_call = CreatePost | UpdatePost | UpdateOwnPost | DeletePost | DeleteOwnPost

text \<open>
  \<^verbatim>\<open>!s.trim()\<close>: the string consists of white space only. Strings are 8-bit here, so
  the white space of ECMAScript is tab, line feed, vertical tab, form feed, carriage
  return, space and the no-break space.
\<close>

definition js_whitespace :: "char \<Rightarrow> bool" where
  "js_whitespace c = (of_char c \<in> {9, 10, 11, 12, 13, 32, 160 :: nat})"

definition trim_is_empty :: "string \<Rightarrow> bool" where
  "trim_is_empty s = list_all js_whitespace s"

subsection \<open>screens/PostsScreen.js\<close>

text \<open>
  \<^verbatim>\<open>canEditPost\<close> and \<^verbatim>\<open>canDeletePost\<close> have the same body; they decide whether the
  edit and delete buttons of a list item are rendered.
\<close>

definition canEditPost :: "app_state \<Rightarrow> jsval \<Rightarrow> js_error + bool" where
  "canEditPost s post =
     (if \<not> isAuthenticated s then Inr False
      else if isAdmin (user s) then Inr True
      else (case read_prop post ''userId'' of
              Inl e \<Rightarrow> Inl e
            | Inr postUserId \<Rightarrow>
               (case read_prop (user s) ''id'' of
                  Inl e \<Rightarrow> Inl e
                | Inr userId \<Rightarrow> Inr (strict_eq postUserId userId))))"

definition canDeletePost :: "app_state \<Rightarrow> jsval \<Rightarrow> js_error + bool" where
  "canDeletePost s post =
     (if \<not> isAuthenticated s then Inr False
      else if isAdmin (user s) then Inr True
      else (case read_prop post ''userId'' of
              Inl e \<Rightarrow> Inl e
            | Inr postUserId \<Rightarrow>
               (case read_prop (user s) ''id'' of
                  Inl e \<Rightarrow> Inl e
                | Inr userId \<Rightarrow> Inr (strict_eq postUserId userId))))"

text \<open>
  The route parameters of \<^verbatim>\<open>navigation.navigate('EditPost', {postId, isOwnPost})\<close>, in
  both screens.
\<close>

definition editPost_params :: "app_state \<Rightarrow> jsval \<Rightarrow> js_error + jsval \<times> jsval" where
  "editPost_params s post =
     (case read_prop post ''id'' of
        Inl e \<Rightarrow> Inl e
      | Inr postId \<Rightarrow>
         (case read_prop post ''userId'' of
            Inl e \<Rightarrow> Inl e
          | Inr postUserId \<Rightarrow>
             (case read_prop (user s) ''id'' of
                Inl e \<Rightarrow> Inl e
              | Inr userId \<Rightarrow> Inr (postId, JBool (strict_eq postUserId userId)))))"

text \<open>
  The confirmed delete of a list item. An exception inside the \<^verbatim>\<open>try\<close> (the user or
  the post is null) ends in an alert, with no request sent.
\<close>

definition handleDeletePost :: "app_state \<Rightarrow> jsval \<Rightarrow> service_call option" where
  "handleDeletePost s post =
     (case read_prop post ''userId'' of
        Inl e \<Rightarrow> None
      | Inr postUserId \<Rightarrow>
         (case read_prop (user s) ''id'' of
            Inl e \<Rightarrow> None
          | Inr userId \<Rightarrow>
             (let isOwnPost = strict_eq postUserId userId in
              if isAdmin (user s) then Some DeletePost
              else if isOwnPost then Some DeleteOwnPost
              else None)))"

subsection \<open>screens/PostDetailScreen.js\<close>

definition detail_canEditPost :: "app_state \<Rightarrow> jsval \<Rightarrow> js_error + bool" where
  "detail_canEditPost s post =
     (if \<not> truthy post \<or> \<not> isAuthenticated s then Inr False
      else if isAdmin (user s) then Inr True
      else (case read_prop post ''userId'' of
              Inl e \<Rightarrow> Inl e
            | Inr postUserId \<Rightarrow>
               (case read_prop (user s) ''id'' of
                  Inl e \<Rightarrow> Inl e
                | Inr userId \<Rightarrow> Inr (strict_eq postUserId userId))))"

definition detail_handleDeletePost :: "app_state \<Rightarrow> jsval \<Rightarrow> service_call option" where
  "detail_handleDeletePost s post =
     (case read_prop post ''userId'' of
        Inl e \<Rightarrow> None
      | Inr postUserId \<Rightarrow>
         (case read_prop (user s) ''id'' of
            Inl e \<Rightarrow> None
          | Inr userId \<Rightarrow>
             (let isOwnPost = strict_eq postUserId userId in
              if isAdmin (user s) then Some DeletePost
              else if isOwnPost then Some DeleteOwnPost
              else None)))"

subsection \<open>screens/CreateEditPostScreen.js\<close>

text \<open>
  \<open>postId\<close> and \<open>isOwnPost\<close> are the route parameters (undefined when the screen is
  opened as NewPost), \<open>title\<close> and \<open>content\<close> the form fields.
\<close>

definition handleSubmit ::
  "app_state \<Rightarrow> jsval \<Rightarrow> jsval \<Rightarrow> string \<Rightarrow> string \<Rightarrow> service_call option" where
  "handleSubmit s postId isOwnPost title content =
     (let isEditing = truthy postId in
      if trim_is_empty title then None
      else if trim_is_empty content then None
      else if isEditing then
        (if isAdmin (user s) \<and> \<not> truthy isOwnPost then Some UpdatePost
         else Some UpdateOwnPost)
      else Some CreatePost)"

subsection \<open>The two ways into an edit\<close>

text \<open>
  An edit starts at the edit button of the list or of the detail screen, which is there
  only when \<open>canEditPost\<close> holds, goes through the navigation with the parameters above
  and ends in \<open>handleSubmit\<close>.
\<close>

definition edit_from_list ::
  "app_state \<Rightarrow> jsval \<Rightarrow> string \<Rightarrow> string \<Rightarrow> service_call option" where
  "edit_from_list s post title content =
     (case canEditPost s post of
        Inr True \<Rightarrow>
         (case editPost_params s post of
            Inr (postId, isOwnPost) \<Rightarrow> handleSubmit s postId isOwnPost title content
          | Inl e \<Rightarrow> None)
      | _ \<Rightarrow> None)"

definition edit_from_detail ::
  "app_state \<Rightarrow> jsval \<Rightarrow> string \<Rightarrow> string \<Rightarrow> service_call option" where
  "edit_from_detail s post title content =
     (case detail_canEditPost s post of
        Inr True \<Rightarrow>
         (case editPost_params s post of
            Inr (postId, isOwnPost) \<Rightarrow> handleSubmit s postId isOwnPost title content
          | Inl e \<Rightarrow> None)
      | _ \<Rightarrow> None)"

text \<open>The ownership test of the screens, \<^verbatim>\<open>post.userId === user.id\<close>, as a predicate.\<close>

definition owns :: "jsval \<Rightarrow> jsval \<Rightarrow> bool" where
  "owns u post = (\<not> nullish u \<and> \<not> nullish post
                  \<and> strict_eq (member post ''userId'') (member u ''id''))"

section \<open>Sample data\<close>

definition session_alice :: app_state where
  "session_alice =
     \<lparr>user = JObj [(''id'', JNum 1), (''name'', JStr ''alice'')], token = JStr ''t0'',
      isLoading = False, error = JNull,
      storage = [''authToken'' \<mapsto> JStr ''t0'', ''user'' \<mapsto> JStr ''{}''],
      authorization = Some (Bearer (JStr ''t0''))\<rparr>"

definition session_admin :: app_state where
  "session_admin =
     \<lparr>user = JObj [(''id'', JNum 2), (''name'', JStr ''root''), (''isAdmin'', JBool True)],
      token = JStr ''t2'', isLoading = False, error = JNull,
      storage = Map.empty, authorization = Some (Bearer (JStr ''t2''))\<rparr>"

definition post_of :: "int \<Rightarrow> jsval" where
  "post_of owner =
     JObj [(''id'', JNum 7), (''title'', JStr ''T''), (''content'', JStr ''C''),
           (''userId'', JNum owner)]"

definition token_response :: http_response where
  "token_response = Response 200 (JObj [(''token'', JStr ''t1'')])"

definition profile_response :: http_response where
  "profile_response =
     Response 200 (JObj [(''data'', JObj [(''id'', JNum 1), (''name'', JStr ''alice'')])])"

section \<open>Properties of the session manager\<close>

lemma truthy_member: "truthy (member d k) \<Longrightarrow> truthy d"
  by (cases d) simp_all

text \<open>
  C8. register does not establish a session: whether the backend accepts the account
  (the created-account payload is returned) or rejects it (the backend's error is
  rethrown), the in-memory user and token, the durable storage and the default
  authorization header are exactly what they were before the call.
\<close>

theorem register_keeps_session:
  "register s (Inr response) = (Inr (resp_data response), s\<lparr>error := JNull\<rparr>)
   \<and> fst (register s (Inl e)) = Inl e
   \<and> user (snd (register s post)) = user s
   \<and> token (snd (register s post)) = token s
   \<and> storage (snd (register s post)) = storage s
   \<and> authorization (snd (register s post)) = authorization s
   \<and> isAuthenticated (snd (register s post)) = isAuthenticated s"
  by (simp add: register_def isAuthenticated_def Let_def split: sum.split)

subsection \<open>login\<close>

text \<open>
  C4. When the backend rejects the credentials, that is, the token exchange is rejected
  with an error \<open>e\<close>, login fails with \<open>e\<close> and leaves the in-memory token, the in-memory
  user, the durable storage and the default authorization header as they were.
\<close>

theorem login_rejected_keeps_session:
  "fst (login stringify s (Inl e) profile w1 w2) = Inl e
   \<and> user (snd (login stringify s (Inl e) profile w1 w2)) = user s
   \<and> token (snd (login stringify s (Inl e) profile w1 w2)) = token s
   \<and> storage (snd (login stringify s (Inl e) profile w1 w2)) = storage s
   \<and> authorization (snd (login stringify s (Inl e) profile w1 w2)) = authorization s"
  by (simp add: login_def login_catch_def)

text \<open>
  The same holds when the backend answers the exchange without a usable token: the
  failure comes before the first write.
\<close>

lemma login_without_token_keeps_session:
  assumes "read_prop (resp_data response) ''token'' = Inr t" and "\<not> truthy t"
  shows "login stringify s (Inr response) profile w1 w2 =
           (Inl (PlainError ''No token received from server''),
            s\<lparr>error := JStr ''Login failed''\<rparr>)"
  using assms by (simp add: login_def login_catch_def error_message_def)

text \<open>
  The state a login ends in when the token exchange yields the token \<open>t\<close> and the
  profile fetch fails, either because axios rejects or because the response has no body
  to read \<open>data\<close> from.
\<close>

lemma login_profile_failure_state:
  assumes "read_prop (resp_data response) ''token'' = Inr t" and "truthy t"
    and "profile = Inl e \<or> (\<exists>pr. profile = Inr pr \<and> read_prop (resp_data pr) ''data'' = Inl e)"
  shows "login stringify s (Inr response) profile w1 w2 =
           (Inl e, s\<lparr>token := t, authorization := Some (Bearer t),
                     error := error_message e ''Login failed''\<rparr>)"
  using assms by (auto simp add: login_def login_catch_def)

text \<open>
  C1, as amended. When the token exchange succeeds and the profile fetch fails, login
  fails with the error of the fetch, the received token is retained in the in-memory
  session (so the session counts as authenticated), and the user record is left as it
  was before the call: absent if the session had none, the previous user otherwise.
\<close>

theorem login_profile_failure_keeps_token:
  assumes "read_prop (resp_data response) ''token'' = Inr t" and "truthy t"
    and "profile = Inl e \<or> (\<exists>pr. profile = Inr pr \<and> read_prop (resp_data pr) ''data'' = Inl e)"
  shows "fst (login stringify s (Inr response) profile w1 w2) = Inl e
     \<and> token (snd (login stringify s (Inr response) profile w1 w2)) = t
     \<and> isAuthenticated (snd (login stringify s (Inr response) profile w1 w2))
     \<and> user (snd (login stringify s (Inr response) profile w1 w2)) = user s"
  using assms by (simp add: login_profile_failure_state [OF assms] isAuthenticated_def)

text \<open>On an empty session the failed login leaves a token and no user record.\<close>

theorem login_profile_failure_keeps_token_witness:
  "read_prop (resp_data token_response) ''token'' = Inr (JStr ''t1'')
   \<and> truthy (JStr ''t1'')
   \<and> fst (login id (app_start Map.empty) (Inr token_response) (Inl (AxiosError None))
            None None) = Inl (AxiosError None)
   \<and> token (snd (login id (app_start Map.empty) (Inr token_response) (Inl (AxiosError None))
            None None)) = JStr ''t1''
   \<and> user (snd (login id (app_start Map.empty) (Inr token_response) (Inl (AxiosError None))
            None None)) = JNull"
  using login_profile_failure_keeps_token
    [of token_response "JStr ''t1''" "Inl (AxiosError None)" "AxiosError None" id
        "app_start Map.empty" None None]
  by (simp add: read_prop_def app_start_def token_response_def)

text \<open>
  C1 as stated fails: login does not reset the user record, so a session that held a
  user before the call is left with the new token and the old user record.
\<close>

theorem login_profile_failure_counterexample:
  "fst (login id session_alice (Inr token_response) (Inl (AxiosError None)) None None)
     = Inl (AxiosError None)
   \<and> token (snd (login id session_alice (Inr token_response) (Inl (AxiosError None))
        None None)) = JStr ''t1''
   \<and> user (snd (login id session_alice (Inr token_response) (Inl (AxiosError None))
        None None)) = JObj [(''id'', JNum 1), (''name'', JStr ''alice'')]
   \<and> \<not> nullish (user (snd (login id session_alice (Inr token_response)
        (Inl (AxiosError None)) None None)))"
  by (simp add: login_def login_catch_def read_prop_def session_alice_def token_response_def)

text \<open>
  C10. When the token exchange succeeds and the profile fetch fails, the durable storage
  is not modified. A restart, which restores the session from the storage alone,
  therefore ends in the state it would have reached without the failed login; in
  particular, over a storage without a token entry the restarted session has no token.
\<close>

theorem login_profile_failure_keeps_storage:
  assumes "read_prop (resp_data response) ''token'' = Inr t" and "truthy t"
    and "profile = Inl e \<or> (\<exists>pr. profile = Inr pr \<and> read_prop (resp_data pr) ''data'' = Inl e)"
  shows "storage (snd (login stringify s (Inr response) profile w1 w2)) = storage s
     \<and> loadStoredAuthState
          (app_start (storage (snd (login stringify s (Inr response) profile w1 w2)))) g1 g2 parsed
       = loadStoredAuthState (app_start (storage s)) g1 g2 parsed
     \<and> (storage s ''authToken'' = None \<longrightarrow>
          token (loadStoredAuthState
            (app_start (storage (snd (login stringify s (Inr response) profile w1 w2))))
            g1 g2 parsed) = JNull)"
  by (auto simp add: login_profile_failure_state [OF assms] loadStoredAuthState_def getItem_def
      app_start_def split: option.splits sum.splits)

theorem login_profile_failure_keeps_storage_witness:
  "read_prop (resp_data token_response) ''token'' = Inr (JStr ''t1'')
   \<and> truthy (JStr ''t1'')
   \<and> storage (app_start Map.empty) ''authToken'' = None
   \<and> token (snd (login id (app_start Map.empty) (Inr token_response) (Inl (AxiosError None))
        None None)) = JStr ''t1''
   \<and> storage (snd (login id (app_start Map.empty) (Inr token_response)
        (Inl (AxiosError None)) None None)) ''authToken'' = None
   \<and> token (loadStoredAuthState
        (app_start (storage (snd (login id (app_start Map.empty) (Inr token_response)
           (Inl (AxiosError None)) None None))))
        None None (Inr JNull)) = JNull"
proof -
  have tok: "read_prop (resp_data token_response) ''token'' = Inr (JStr ''t1'')"
    by (simp add: read_prop_def token_response_def)
  have empty: "storage (app_start Map.empty) ''authToken'' = None"
    by (simp add: app_start_def)
  have mem: "token (snd (login id (app_start Map.empty) (Inr token_response)
      (Inl (AxiosError None)) None None)) = JStr ''t1''"
    by (simp add: login_def login_catch_def read_prop_def token_response_def)
  have t1: "truthy (JStr ''t1'')"
    by simp
  have failed: "(Inl (AxiosError None) :: js_error + http_response) = Inl (AxiosError None)
      \<or> (\<exists>pr. Inl (AxiosError None) = Inr pr
            \<and> read_prop (resp_data pr) ''data'' = Inl (AxiosError None))"
    by simp
  note inst = login_profile_failure_keeps_storage
      [where stringify = id and s = "app_start Map.empty" and ?w1.0 = None and ?w2.0 = None
         and ?g1.0 = None and ?g2.0 = None and parsed = "Inr JNull", OF tok t1 failed]
  have kept: "storage (snd (login id (app_start Map.empty) (Inr token_response)
        (Inl (AxiosError None)) None None)) = storage (app_start Map.empty)"
    using inst by blast
  have restart: "token (loadStoredAuthState
        (app_start (storage (snd (login id (app_start Map.empty) (Inr token_response)
           (Inl (AxiosError None)) None None))))
        None None (Inr JNull)) = JNull"
    using inst empty by blast
  show ?thesis using tok empty mem kept restart by simp
qed

text \<open>The state a login ends in when every step succeeds.\<close>

lemma login_success_state:
  assumes "read_prop (resp_data response) ''token'' = Inr t" and "truthy t"
    and "read_prop (resp_data profileResponse) ''data'' = Inr u"
  shows "login stringify s (Inr response) (Inr profileResponse) None None =
           (Inr u, s\<lparr>error := JNull, token := t, authorization := Some (Bearer t), user := u,
                     storage := (storage s)(''authToken'' \<mapsto> t, ''user'' \<mapsto> stringify u)\<rparr>)"
  using assms by (simp add: login_def setItem_def)

text \<open>
  C2. Every login that succeeds, returning the user record \<open>u\<close>, got a token \<open>t\<close> from
  the token exchange and \<open>u\<close> from the profile fetch, and leaves a session that holds
  that token and that user, a storage whose token entry is \<open>t\<close> and whose user entry is
  the serialized \<open>u\<close>, and the default authorization header \<open>Bearer t\<close>.
\<close>

theorem login_success_populates_session:
  assumes "login stringify s post profile w1 w2 = (Inr u, s')"
  shows "\<exists>response profileResponse t.
           post = Inr response \<and> profile = Inr profileResponse
         \<and> read_prop (resp_data response) ''token'' = Inr t \<and> truthy t
         \<and> read_prop (resp_data profileResponse) ''data'' = Inr u
         \<and> token s' = t \<and> user s' = u \<and> isAuthenticated s'
         \<and> storage s' ''authToken'' = Some t
         \<and> storage s' ''user'' = Some (stringify u)
         \<and> authorization s' = Some (Bearer t)"
  using assms
  by (auto simp add: login_def login_catch_def setItem_def isAuthenticated_def Let_def
      split: sum.splits if_splits option.splits)

theorem login_success_populates_session_witness:
  "fst (login id (app_start Map.empty) (Inr token_response) (Inr profile_response) None None)
     = Inr (JObj [(''id'', JNum 1), (''name'', JStr ''alice'')])
   \<and> token (snd (login id (app_start Map.empty) (Inr token_response) (Inr profile_response)
        None None)) = JStr ''t1''
   \<and> user (snd (login id (app_start Map.empty) (Inr token_response) (Inr profile_response)
        None None)) = JObj [(''id'', JNum 1), (''name'', JStr ''alice'')]
   \<and> storage (snd (login id (app_start Map.empty) (Inr token_response) (Inr profile_response)
        None None)) ''authToken'' = Some (JStr ''t1'')
   \<and> storage (snd (login id (app_start Map.empty) (Inr token_response) (Inr profile_response)
        None None)) ''user'' = Some (JObj [(''id'', JNum 1), (''name'', JStr ''alice'')])
   \<and> authorization (snd (login id (app_start Map.empty) (Inr token_response)
        (Inr profile_response) None None)) = Some (Bearer (JStr ''t1''))"
proof -
  let ?r = "login id (app_start Map.empty) (Inr token_response) (Inr profile_response) None None"
  let ?u = "JObj [(''id'', JNum 1), (''name'', JStr ''alice'')]"
  have res: "fst ?r = Inr ?u"
    by (simp add: login_def setItem_def read_prop_def token_response_def profile_response_def)
  then have run: "?r = (Inr ?u, snd ?r)"
    by (simp add: prod_eq_iff)
  have tok: "read_prop (resp_data token_response) ''token'' = Inr (JStr ''t1'')"
    by (simp add: read_prop_def token_response_def)
  from login_success_populates_session [OF run]
  obtain response t where sent: "Inr token_response = (Inr response :: js_error + http_response)"
    and got: "read_prop (resp_data response) ''token'' = Inr t"
    and mem: "token (snd ?r) = t" "user (snd ?r) = ?u"
    and sto: "storage (snd ?r) ''authToken'' = Some t" "storage (snd ?r) ''user'' = Some (id ?u)"
    and hdr: "authorization (snd ?r) = Some (Bearer t)"
    by blast
  from sent got tok have "t = JStr ''t1''" by simp
  with res mem sto hdr show ?thesis by simp
qed

subsection \<open>logout\<close>

text \<open>
  C3, as amended. From every session state and whatever the storage does, logout
  resolves without an error (a storage error is caught and only logged) and clears the
  in-memory session: user and token are absent and \<open>isAuthenticated\<close> is false. When
  both storage removals succeed it also removes both persisted entries and the default
  authorization header.
\<close>

theorem logout_clears_session:
  "fst (logout s r1 r2) = Inr ()
   \<and> user (snd (logout s r1 r2)) = JNull
   \<and> token (snd (logout s r1 r2)) = JNull
   \<and> \<not> isAuthenticated (snd (logout s r1 r2))
   \<and> storage (snd (logout s None None)) ''authToken'' = None
   \<and> storage (snd (logout s None None)) ''user'' = None
   \<and> authorization (snd (logout s None None)) = None"
  by (cases r1; cases r2) (simp_all add: logout_def removeItem_def isAuthenticated_def)

text \<open>
  C3 as stated fails when a storage operation throws: the removal of the header is the
  last statement of the \<^verbatim>\<open>try\<close> block, so a rejected
  \<^verbatim>\<open>removeItem('authToken')\<close> skips it, together with the removal of the user entry.
  The logout still resolves, and the header and both entries are still there.
\<close>

theorem logout_storage_fault_counterexample:
  "fst (logout session_alice (Some StorageError) None) = Inr ()
   \<and> authorization (snd (logout session_alice (Some StorageError) None))
       = Some (Bearer (JStr ''t0''))
   \<and> storage (snd (logout session_alice (Some StorageError) None)) ''authToken''
       = Some (JStr ''t0'')
   \<and> storage (snd (logout session_alice (Some StorageError) None)) ''user''
       = Some (JStr ''{}'')"
  by (simp add: logout_def removeItem_def session_alice_def)

subsection \<open>loadStoredAuthState\<close>

text \<open>Unless both entries are present (and non-empty), nothing is restored.\<close>

lemma loadStoredAuthState_needs_both:
  assumes "\<not> (truthy (case st ''authToken'' of Some v \<Rightarrow> v | None \<Rightarrow> JNull)
            \<and> truthy (case st ''user'' of Some v \<Rightarrow> v | None \<Rightarrow> JNull))"
  shows "loadStoredAuthState (app_start st) g1 g2 parsed = (app_start st)\<lparr>isLoading := False\<rparr>"
  using assms
  by (auto simp add: loadStoredAuthState_def getItem_def app_start_def split: option.splits)

text \<open>With both entries present and a user entry that parses, both are restored.\<close>

lemma loadStoredAuthState_both:
  assumes "st ''authToken'' = Some t" "truthy t" "st ''user'' = Some j" "truthy j"
  shows "loadStoredAuthState (app_start st) None None (Inr u) =
     (app_start st)\<lparr>isLoading := False, token := t, user := u, authorization := Some (Bearer t)\<rparr>"
  using assms
  by (auto simp add: loadStoredAuthState_def getItem_def app_start_def split: option.splits)

text \<open>
  C9. The pairing invariant of the restore (token present if and only if user present)
  is broken by the code: \<^verbatim>\<open>setToken(storedToken)\<close> runs before
  \<^verbatim>\<open>JSON.parse(storedUser)\<close>, so when both entries are present and the user entry does
  not parse, the \<^verbatim>\<open>catch\<close> leaves a session with the stored token, no user record and
  no authorization header.
\<close>

theorem loadStoredAuthState_token_without_user:
  "token (loadStoredAuthState
      (app_start [''authToken'' \<mapsto> JStr ''abc'', ''user'' \<mapsto> JStr ''{''])
      None None (Inl SyntaxError)) = JStr ''abc''
   \<and> user (loadStoredAuthState
      (app_start [''authToken'' \<mapsto> JStr ''abc'', ''user'' \<mapsto> JStr ''{''])
      None None (Inl SyntaxError)) = JNull
   \<and> authorization (loadStoredAuthState
      (app_start [''authToken'' \<mapsto> JStr ''abc'', ''user'' \<mapsto> JStr ''{''])
      None None (Inl SyntaxError)) = None"
  by (simp add: loadStoredAuthState_def getItem_def app_start_def)

section \<open>Properties of the content client\<close>

text \<open>
  C6. getPostById fails with the backend's not-found error when the backend answers 404
  (the client has no error classes of its own: the error is the one axios rejects with,
  carrying the 404 response, rethrown as it is); when the body carries a truthy \<open>data\<close> property (the envelope) the result is that
  property, when it does not (and the body is not null) the result is the body itself;
  and every successful call returns one of the two.
\<close>

theorem getPostById_result:
  "getPostById (Inl (AxiosError (Some (Response 404 body))))
     = Inl (AxiosError (Some (Response 404 body)))
   \<and> (truthy (member d ''data'') \<longrightarrow>
        getPostById (Inr (Response st d)) = Inr (member d ''data''))
   \<and> (\<not> truthy (member d ''data'') \<and> \<not> nullish d \<longrightarrow>
        getPostById (Inr (Response st d)) = Inr d)
   \<and> (getPostById get = Inr v \<longrightarrow>
        (\<exists>response. get = Inr response
           \<and> v = (if truthy (member (resp_data response) ''data'')
                  then member (resp_data response) ''data'' else resp_data response)))"
  by (auto simp add: getPostById_def read_prop_def truthy_member split: sum.splits if_splits)

theorem getPostById_result_witness:
  "truthy (member (JObj [(''data'', post_of 1)]) ''data'')
   \<and> getPostById (Inr (Response 200 (JObj [(''data'', post_of 1)]))) = Inr (post_of 1)
   \<and> \<not> truthy (member (post_of 1) ''data'') \<and> \<not> nullish (post_of 1)
   \<and> getPostById (Inr (Response 200 (post_of 1))) = Inr (post_of 1)
   \<and> getPostById (Inl (AxiosError (Some (Response 404 (JObj [(''message'', JStr ''Post not found'')])))))
       = Inl (AxiosError (Some (Response 404 (JObj [(''message'', JStr ''Post not found'')]))))"
  using getPostById_result [where d = "JObj [(''data'', post_of 1)]" and st = 200]
    getPostById_result [where d = "post_of 1" and st = 200
      and body = "JObj [(''message'', JStr ''Post not found'')]"]
  by (simp add: post_of_def)

text \<open>
  C7. getAllPosts returns the array of posts the backend sent, element for element and in
  the same order, whether it comes bare or inside a \<open>data\<close> envelope; an empty array
  comes back as an empty array, in both shapes; an error of the request is rethrown.
\<close>

theorem getAllPosts_result:
  "getAllPosts (Inl e) = Inl e
   \<and> getAllPosts (Inr (Response st (JArr posts))) = Inr (JArr posts)
   \<and> (member d ''data'' = JArr posts \<longrightarrow> getAllPosts (Inr (Response st d)) = Inr (JArr posts))
   \<and> getAllPosts (Inr (Response st (JArr []))) = Inr (JArr [])
   \<and> getAllPosts (Inr (Response st (JObj [(''data'', JArr [])]))) = Inr (JArr [])"
proof -
  have "truthy d" if "member d ''data'' = JArr posts"
    using that truthy_member [of d "''data''"] by simp
  then show ?thesis by (simp add: getAllPosts_def)
qed

theorem getAllPosts_result_witness:
  "member (JObj [(''data'', JArr [post_of 2, post_of 1])]) ''data'' = JArr [post_of 2, post_of 1]
   \<and> getAllPosts (Inr (Response 200 (JObj [(''data'', JArr [post_of 2, post_of 1])])))
       = Inr (JArr [post_of 2, post_of 1])"
  using getAllPosts_result
    [where d = "JObj [(''data'', JArr [post_of 2, post_of 1])]" and st = 200
       and posts = "[post_of 2, post_of 1]"]
  by simp

section \<open>Properties of the endpoint selection\<close>

text \<open>
  The delete handlers, for any session: a missing user record makes the handler throw
  before it sends anything, and counts as neither admin nor owner.
\<close>

lemma handleDeletePost_table:
  assumes "\<not> nullish post"
  shows "handleDeletePost s post =
     (if isAdmin (user s) then Some DeletePost
      else if owns (user s) post then Some DeleteOwnPost else None)"
proof (cases "nullish (user s)")
  case True
  then show ?thesis
    by (simp add: handleDeletePost_def read_prop_def owns_def isAdmin_def opt_member_def)
next
  case False
  with assms show ?thesis
    by (simp add: handleDeletePost_def read_prop_def owns_def)
qed

lemma detail_handleDeletePost_same:
  "detail_handleDeletePost s post = handleDeletePost s post"
  by (simp add: detail_handleDeletePost_def handleDeletePost_def)

text \<open>The delete button is rendered exactly when the handler behind it will send a request.\<close>

lemma canDeletePost_iff_request:
  assumes "isAuthenticated s" "\<not> nullish (user s)" "\<not> nullish post"
  shows "canDeletePost s post = Inr (handleDeletePost s post \<noteq> None)"
  using assms by (simp add: canDeletePost_def handleDeletePost_def read_prop_def)

text \<open>
  \<open>handleSubmit\<close> on a filled-in form: the route parameter \<open>postId\<close> decides between
  an update and a creation, \<open>isAdmin\<close> and the route parameter \<open>isOwnPost\<close> between the
  two update endpoints.
\<close>

lemma handleSubmit_table:
  assumes "\<not> trim_is_empty title" "\<not> trim_is_empty content"
  shows "handleSubmit s postId isOwnPost title content =
     (if truthy postId
      then (if isAdmin (user s) \<and> \<not> truthy isOwnPost then Some UpdatePost
            else Some UpdateOwnPost)
      else Some CreatePost)"
  using assms by (simp add: handleSubmit_def)

lemma handleSubmit_blank:
  assumes "trim_is_empty title \<or> trim_is_empty content"
  shows "handleSubmit s postId isOwnPost title content = None"
  using assms by (auto simp add: handleSubmit_def)

text \<open>The edit button of the list is rendered for an admin and for the owner only.\<close>

lemma canEditPost_table:
  assumes "isAuthenticated s" "\<not> nullish post"
  shows "canEditPost s post = Inr True \<longleftrightarrow> isAdmin (user s) \<or> owns (user s) post"
proof (cases "nullish (user s)")
  case True
  with assms show ?thesis
    by (simp add: canEditPost_def read_prop_def owns_def isAdmin_def opt_member_def)
next
  case False
  with assms show ?thesis
    by (simp add: canEditPost_def read_prop_def owns_def)
qed

lemma editPost_params_value:
  assumes "\<not> nullish post" "\<not> nullish (user s)"
  shows "editPost_params s post = Inr (member post ''id'', JBool (owns (user s) post))"
  using assms by (simp add: editPost_params_def read_prop_def owns_def)

lemma isAdmin_not_nullish: "isAdmin u \<Longrightarrow> \<not> nullish u"
  by (auto simp add: isAdmin_def opt_member_def)

lemma owns_not_nullish: "owns u post \<Longrightarrow> \<not> nullish u"
  by (simp add: owns_def)

text \<open>
  The whole edit flow from the list on a filled-in form. The identifier of the post is
  passed on as \<open>postId\<close>, so a post whose identifier is falsy is submitted as a
  creation.
\<close>

lemma edit_from_list_flow:
  assumes "isAuthenticated s" "\<not> nullish post"
    "\<not> trim_is_empty title" "\<not> trim_is_empty content"
  shows "edit_from_list s post title content =
     (if \<not> (isAdmin (user s) \<or> owns (user s) post) then None
      else if \<not> truthy (member post ''id'') then Some CreatePost
      else if isAdmin (user s) \<and> \<not> owns (user s) post then Some UpdatePost
      else Some UpdateOwnPost)"
proof (cases "isAdmin (user s) \<or> owns (user s) post")
  case False
  with canEditPost_table [OF assms(1,2)] have "canEditPost s post \<noteq> Inr True"
    by simp
  then have "edit_from_list s post title content = None"
    by (cases "canEditPost s post") (auto simp add: edit_from_list_def)
  with False show ?thesis by simp
next
  case True
  then have u: "\<not> nullish (user s)"
    using isAdmin_not_nullish owns_not_nullish by blast
  from True canEditPost_table [OF assms(1,2)] have shown: "canEditPost s post = Inr True"
    by simp
  show ?thesis
    using True
    by (auto simp add: edit_from_list_def shown editPost_params_value [OF assms(2) u]
        handleSubmit_table [OF assms(3,4)])
qed

lemma edit_from_list_table:
  assumes "isAuthenticated s"
    "truthy (member post ''id'')" "\<not> trim_is_empty title" "\<not> trim_is_empty content"
  shows "edit_from_list s post title content =
     (if isAdmin (user s) \<and> \<not> owns (user s) post then Some UpdatePost
      else if owns (user s) post then Some UpdateOwnPost else None)"
proof -
  have "truthy post" using assms(2) by (rule truthy_member)
  then have "\<not> nullish post" by (cases post) simp_all
  from edit_from_list_flow [OF assms(1) this assms(3,4)] assms(2)
  show ?thesis by auto
qed

text \<open>
  A post whose identifier is falsy (0, the empty string, missing): the edit screen
  takes the submission for a new post.
\<close>

lemma edit_from_list_falsy_id:
  assumes "isAuthenticated s" "\<not> nullish post" "\<not> truthy (member post ''id'')"
    "\<not> trim_is_empty title" "\<not> trim_is_empty content"
  shows "edit_from_list s post title content =
     (if isAdmin (user s) \<or> owns (user s) post then Some CreatePost else None)"
  using edit_from_list_flow [OF assms(1,2,4,5)] assms(3) by auto

lemma edit_from_detail_same:
  assumes "truthy post"
  shows "edit_from_detail s post title content = edit_from_list s post title content"
  using assms
  by (simp add: edit_from_detail_def edit_from_list_def detail_canEditPost_def
      canEditPost_def)

text \<open>
  C5, as amended. Let the post be a value other than null and undefined.
  \<^item> A delete, from the list or from the detail screen, invokes the privileged
    \<open>deletePost\<close> exactly when the actor is an admin, whoever owns the post, invokes
    \<open>deleteOwnPost\<close> exactly when the actor is a non-admin owner, and invokes neither
    exactly when the actor is neither admin nor owner.
  \<^item> An update by an authenticated actor of a post whose identifier is truthy (not 0, not
    empty, not missing), entered from the list or from the detail screen and submitted
    with a title and a content that are not blank, invokes the privileged \<open>updatePost\<close>
    exactly when the actor is an admin acting on another user's post, invokes
    \<open>updateOwnPost\<close> exactly when the actor owns the post, and invokes neither exactly
    when the actor is neither admin nor owner (the edit button is not offered).
  \<^item> \<open>handleSubmit\<close> itself, on a truthy \<open>postId\<close> and a title and a content that are
    not blank, picks \<open>updatePost\<close> for an admin whose route parameter \<open>isOwnPost\<close> is
    falsy and \<open>updateOwnPost\<close> in every other case.
\<close>

theorem endpoint_selection:
  assumes "\<not> nullish post"
  shows "(handleDeletePost s post = Some DeletePost \<longleftrightarrow> isAdmin (user s))
     \<and> (handleDeletePost s post = Some DeleteOwnPost \<longleftrightarrow>
          \<not> isAdmin (user s) \<and> owns (user s) post)
     \<and> (handleDeletePost s post = None \<longleftrightarrow> \<not> isAdmin (user s) \<and> \<not> owns (user s) post)
     \<and> detail_handleDeletePost s post = handleDeletePost s post
     \<and> (isAuthenticated s \<and> truthy (member post ''id'')
          \<and> \<not> trim_is_empty title \<and> \<not> trim_is_empty content \<longrightarrow>
           (edit_from_list s post title content = Some UpdatePost \<longleftrightarrow>
              isAdmin (user s) \<and> \<not> owns (user s) post)
         \<and> (edit_from_list s post title content = Some UpdateOwnPost \<longleftrightarrow>
              owns (user s) post)
         \<and> (edit_from_list s post title content = None \<longleftrightarrow>
              \<not> isAdmin (user s) \<and> \<not> owns (user s) post)
         \<and> edit_from_detail s post title content = edit_from_list s post title content)
     \<and> (truthy postId \<and> \<not> trim_is_empty title \<and> \<not> trim_is_empty content \<longrightarrow>
          handleSubmit s postId isOwnPost title content =
            (if isAdmin (user s) \<and> \<not> truthy isOwnPost then Some UpdatePost
             else Some UpdateOwnPost))"
proof -
  have del: "handleDeletePost s post =
     (if isAdmin (user s) then Some DeletePost
      else if owns (user s) post then Some DeleteOwnPost else None)"
    using assms by (rule handleDeletePost_table)
  have deletes: "(handleDeletePost s post = Some DeletePost \<longleftrightarrow> isAdmin (user s))
     \<and> (handleDeletePost s post = Some DeleteOwnPost \<longleftrightarrow>
          \<not> isAdmin (user s) \<and> owns (user s) post)
     \<and> (handleDeletePost s post = None \<longleftrightarrow> \<not> isAdmin (user s) \<and> \<not> owns (user s) post)
     \<and> detail_handleDeletePost s post = handleDeletePost s post"
    unfolding del detail_handleDeletePost_same by simp
  have updates: "(edit_from_list s post title content = Some UpdatePost \<longleftrightarrow>
              isAdmin (user s) \<and> \<not> owns (user s) post)
         \<and> (edit_from_list s post title content = Some UpdateOwnPost \<longleftrightarrow>
              owns (user s) post)
         \<and> (edit_from_list s post title content = None \<longleftrightarrow>
              \<not> isAdmin (user s) \<and> \<not> owns (user s) post)
         \<and> edit_from_detail s post title content = edit_from_list s post title content"
    if auth: "isAuthenticated s" and pid: "truthy (member post ''id'')"
      and form: "\<not> trim_is_empty title" "\<not> trim_is_empty content"
  proof -
    have "truthy post" using pid by (rule truthy_member)
    then have same: "edit_from_detail s post title content = edit_from_list s post title content"
      by (rule edit_from_detail_same)
    show ?thesis
      unfolding same edit_from_list_table [OF auth pid form] by simp
  qed
  have submit: "handleSubmit s postId isOwnPost title content =
            (if isAdmin (user s) \<and> \<not> truthy isOwnPost then Some UpdatePost
             else Some UpdateOwnPost)"
    if "truthy postId" "\<not> trim_is_empty title" "\<not> trim_is_empty content"
    using that by (simp add: handleSubmit_table)
  from deletes updates submit show ?thesis by blast
qed

theorem endpoint_selection_witness:
  "\<not> nullish (post_of 1)
   \<and> isAuthenticated session_alice \<and> truthy (member (post_of 1) ''id'')
   \<and> \<not> trim_is_empty ''Title'' \<and> \<not> trim_is_empty ''Text''
   \<and> owns (user session_alice) (post_of 1) \<and> \<not> isAdmin (user session_alice)
   \<and> handleDeletePost session_alice (post_of 1) = Some DeleteOwnPost
   \<and> detail_handleDeletePost session_alice (post_of 1) = Some DeleteOwnPost
   \<and> edit_from_list session_alice (post_of 1) ''Title'' ''Text'' = Some UpdateOwnPost
   \<and> edit_from_detail session_alice (post_of 1) ''Title'' ''Text'' = Some UpdateOwnPost
   \<and> handleSubmit session_alice (JNum 7) (JBool True) ''Title'' ''Text'' = Some UpdateOwnPost"
proof -
  have p: "\<not> nullish (post_of 1)"
    by (simp add: post_of_def)
  have hyps: "isAuthenticated session_alice" "truthy (member (post_of 1) ''id'')"
    "\<not> trim_is_empty ''Title''" "\<not> trim_is_empty ''Text''" "truthy (JNum 7)"
    by (simp_all add: isAuthenticated_def session_alice_def post_of_def trim_is_empty_def
        js_whitespace_def)
  have facts: "owns (user session_alice) (post_of 1)" "\<not> isAdmin (user session_alice)"
    by (simp_all add: owns_def isAdmin_def opt_member_def session_alice_def post_of_def)
  from endpoint_selection
    [OF p, where s = session_alice and title = "''Title''" and content = "''Text''"
       and postId = "JNum 7" and isOwnPost = "JBool True"]
    p hyps facts
  show ?thesis by simp
qed

text \<open>
  C5 as stated fails for deletes: an admin who deletes a post of their own is sent to
  the privileged \<open>deletePost\<close>, not to \<open>deleteOwnPost\<close>, because the handler tests
  \<open>isAdmin\<close> before the ownership.
\<close>

theorem admin_deletes_own_post_counterexample:
  "isAuthenticated session_admin
   \<and> isAdmin (user session_admin)
   \<and> owns (user session_admin) (post_of 2)
   \<and> handleDeletePost session_admin (post_of 2) = Some DeletePost
   \<and> detail_handleDeletePost session_admin (post_of 2) = Some DeletePost
   \<and> handleDeletePost session_admin (post_of 2) \<noteq> Some DeleteOwnPost"
  by (simp add: handleDeletePost_def detail_handleDeletePost_def read_prop_def owns_def
      isAdmin_def opt_member_def isAuthenticated_def session_admin_def post_of_def)

end
